theory Spec2Isabelle
  imports Main "HOL-Library.Word"
begin

section \<open>Errors and JavaScript values\<close>

text \<open>
  Every \<^verbatim>\<open>assert\<close>, every throwing library call and every failing parse of
  \<^verbatim>\<open>maci/domainobjs/ts/index.ts\<close> is a value \<open>Inl e\<close> of \<open>error + 'a\<close>.
  A \<^verbatim>\<open>SnarkBigInt\<close>, and a number \<^verbatim>\<open>0\<close> that the source writes in its place, is a
  HOL integer. \<open>UndefinedValue\<close> stands for a read that yields JavaScript's
  \<^verbatim>\<open>undefined\<close> where the declared type is \<^verbatim>\<open>SnarkBigInt\<close>; the integer-typed
  records below cannot hold it, so the embedding stops there.
\<close>

datatype error = AssertionError | SyntaxError | UndefinedValue | CryptoFailure

definition bind_err :: "error + 'a \<Rightarrow> ('a \<Rightarrow> error + 'b) \<Rightarrow> error + 'b" where
  "bind_err m f = (case m of Inl e \<Rightarrow> Inl e | Inr v \<Rightarrow> f v)"

text \<open>\<^verbatim>\<open>try { body } catch { }\<close> followed by the handler's value.\<close>

definition try_catch :: "error + 'a \<Rightarrow> (error \<Rightarrow> error + 'a) \<Rightarrow> error + 'a" where
  "try_catch body handler = (case body of Inl e \<Rightarrow> handler e | Inr v \<Rightarrow> Inr v)"

text \<open>
  \<^verbatim>\<open>assert(b)\<close> of Node's \<^verbatim>\<open>assert\<close> module.
\<close>

definition assert :: "bool \<Rightarrow> error + unit" where
  "assert b = (if b then Inr () else Inl AssertionError)"

text \<open>
  A value as a loose comparison \<^verbatim>\<open>==\<close> sees it: \<^verbatim>\<open>undefined\<close> or a big integer.
\<close>

datatype js_value = JSUndefined | JSBigInt int

fun js_loose_eq :: "js_value \<Rightarrow> js_value \<Rightarrow> bool" where
  "js_loose_eq JSUndefined JSUndefined = True"
| "js_loose_eq (JSBigInt a) (JSBigInt b) = (a = b)"
| "js_loose_eq _ _ = False"

section \<open>Strings and hexadecimal text\<close>

text \<open>
  A JavaScript string is a list of characters here, each \<open>char\<close> one code unit below
  256; \<^verbatim>\<open>s.startsWith(p)\<close> and \<^verbatim>\<open>s.slice(n)\<close> count code units.
\<close>

definition startsWith :: "string \<Rightarrow> string \<Rightarrow> bool" where
  "startsWith s p = (take (length p) s = p)"

definition slice_from :: "string \<Rightarrow> nat \<Rightarrow> string" where
  "slice_from s n = drop n s"

definition hex_digit_char :: "nat \<Rightarrow> char" where
  "hex_digit_char d = ''0123456789abcdef'' ! d"

definition hex_digit_value :: "char \<Rightarrow> nat option" where
  "hex_digit_value c =
     (let n = (of_char c :: nat) in
      if 48 \<le> n \<and> n \<le> 57 then Some (n - 48)
      else if 97 \<le> n \<and> n \<le> 102 then Some (n - 87)
      else if 65 \<le> n \<and> n \<le> 70 then Some (n - 55)
      else None)"

text \<open>
  \<^verbatim>\<open>BigInt.prototype.toString(16)\<close>: lowercase digits, no leading zero, a minus sign
  before the digits of a negative value.
\<close>

fun toString16_nat :: "nat \<Rightarrow> string" where
  "toString16_nat n =
     (if n < 16 then [hex_digit_char n]
      else toString16_nat (n div 16) @ [hex_digit_char (n mod 16)])"

definition toString16 :: "int \<Rightarrow> string" where
  "toString16 v =
     (if v < 0 then CHR ''-'' # toString16_nat (nat (- v)) else toString16_nat (nat v))"

fun hex_digits_value :: "nat \<Rightarrow> string \<Rightarrow> nat option" where
  "hex_digits_value acc [] = Some acc"
| "hex_digits_value acc (c # cs) =
     (case hex_digit_value c of
        None \<Rightarrow> None
      | Some d \<Rightarrow> hex_digits_value (16 * acc + d) cs)"

text \<open>
  The white space that a numeric string may end with (\<^verbatim>\<open>StrWhiteSpaceChar\<close> of the
  language standard), among the code units below 256: tab, line feed, vertical tab,
  form feed, carriage return, space and no-break space.
\<close>

definition StrWhiteSpaceChar :: "char \<Rightarrow> bool" where
  "StrWhiteSpaceChar c =
     (let n = (of_char c :: nat) in
      n = 9 \<or> n = 10 \<or> n = 11 \<or> n = 12 \<or> n = 13 \<or> n = 32 \<or> n = 160)"

definition trim_end :: "string \<Rightarrow> string" where
  "trim_end x = rev (dropWhile StrWhiteSpaceChar (rev x))"

text \<open>
  Modelled from the spec: \<^verbatim>\<open>bigInt\<close> is imported from \<^verbatim>\<open>maci-crypto\<close>, which is
  not among the sources. \<open>bigInt_0x x\<close> is the call \<^verbatim>\<open>bigInt('0x' + x)\<close>: it "parses
  the remainder as hexadecimal" and fails when "the remainder is not valid hex"
  (section 4.1). The source compares the results with \<^verbatim>\<open><\<close> and \<^verbatim>\<open>===\<close>, so they
  are native big integers and the parse is that of \<^verbatim>\<open>BigInt(text)\<close>: after
  \<^verbatim>\<open>0x\<close> come one or more digits \<^verbatim>\<open>0-9 a-f A-F\<close>, then white space or nothing;
  anything else is a \<^verbatim>\<open>SyntaxError\<close>.
\<close>

definition bigInt_0x :: "string \<Rightarrow> error + int" where
  "bigInt_0x x =
     (let digits = trim_end x
      in if digits = [] then Inl SyntaxError
         else case hex_digits_value 0 digits of
                None \<Rightarrow> Inl SyntaxError
              | Some n \<Rightarrow> Inr (int n))"

section \<open>The crypto-primitives library\<close>

text \<open>
  Modelled from the spec: the types \<^verbatim>\<open>Signature\<close> and \<^verbatim>\<open>Ciphertext\<close> are declared in
  \<^verbatim>\<open>maci-crypto\<close>, which is not among the sources. Section 3: a signature is "R8
  (point, two field elements) and S (scalar)". Section 4.5: the message's "iv and data
  come directly from the ciphertext"; these are the two fields \<^verbatim>\<open>Command.encrypt\<close>
  reads (line 481), and \<^verbatim>\<open>Command.decrypt\<close> passes a \<^verbatim>\<open>Message\<close> where a
  \<^verbatim>\<open>Ciphertext\<close> is expected (line 494), so the two are one record type.
\<close>

record Signature =
  R8 :: "int \<times> int"
  S :: int

record Message =
  iv :: int
  data :: "int list"

type_synonym Ciphertext = Message

text \<open>
  The functions and the constant that \<^verbatim>\<open>index.ts\<close> imports from \<^verbatim>\<open>maci-crypto\<close>
  (lines 2-25) are not among the sources; the domain objects take them as a parameter
  \<open>lib\<close>. Every library function may throw.
\<close>

record maci_crypto =
  SNARK_FIELD_SIZE :: int
  genPubKey :: "int \<Rightarrow> error + int list"
  genEcdhSharedKey :: "int \<Rightarrow> int list \<Rightarrow> error + int"
  packPubKey :: "int list \<Rightarrow> error + 8 word list"
  unpackPubKey :: "8 word list \<Rightarrow> error + int list"
  hash5 :: "int list \<Rightarrow> error + int"
  hash11 :: "int list \<Rightarrow> error + int"
  sign :: "int \<Rightarrow> int \<Rightarrow> error + Signature"
  encrypt :: "int list \<Rightarrow> int \<Rightarrow> error + Ciphertext"
  decrypt :: "Ciphertext \<Rightarrow> int \<Rightarrow> error + int list"

section \<open>PrivKey\<close>

record PrivKey =
  rawPrivKey :: int

definition SERIALIZED_PRIV_KEY_PREFIX :: string where
  "SERIALIZED_PRIV_KEY_PREFIX = ''macisk.''"

definition new_PrivKey :: "int \<Rightarrow> PrivKey" where
  "new_PrivKey raw = \<lparr>rawPrivKey = raw\<rparr>"

definition PrivKey_serialize :: "PrivKey \<Rightarrow> string" where
  "PrivKey_serialize k = SERIALIZED_PRIV_KEY_PREFIX @ toString16 (rawPrivKey k)"

definition PrivKey_unserialize :: "string \<Rightarrow> error + PrivKey" where
  "PrivKey_unserialize s =
     (let x = slice_from s (length SERIALIZED_PRIV_KEY_PREFIX)
      in bind_err (bigInt_0x x) (\<lambda>v. Inr (new_PrivKey v)))"

definition isValidSerializedPrivKey :: "maci_crypto \<Rightarrow> string \<Rightarrow> error + bool" where
  "isValidSerializedPrivKey lib s =
     (let correctPrefix = startsWith s SERIALIZED_PRIV_KEY_PREFIX;
          x = slice_from s (length SERIALIZED_PRIV_KEY_PREFIX)
      in bind_err
           (try_catch
              (bind_err (bigInt_0x x) (\<lambda>v. Inr (v < SNARK_FIELD_SIZE lib)))
              (\<lambda>e. Inr False))
           (\<lambda>validValue. Inr (correctPrefix \<and> validValue)))"

section \<open>PubKey\<close>

record PubKey =
  rawPubKey :: "int list"

definition SERIALIZED_PUB_KEY_PREFIX :: string where
  "SERIALIZED_PUB_KEY_PREFIX = ''macipk.''"

text \<open>
  The constructor (lines 80-85). The three assertions run in order; the reads
  \<^verbatim>\<open>rawPubKey[0]\<close> and \<^verbatim>\<open>rawPubKey[1]\<close> happen only once the length is known to be 2.
  Every \<open>PubKey\<close> the program holds has gone through it, so the methods below read the
  two coordinates of a two-element array.
\<close>

definition new_PubKey :: "maci_crypto \<Rightarrow> int list \<Rightarrow> error + PubKey" where
  "new_PubKey lib raw =
     bind_err (assert (length raw = 2)) (\<lambda>_.
     bind_err (assert (raw ! 0 < SNARK_FIELD_SIZE lib)) (\<lambda>_.
     bind_err (assert (raw ! 1 < SNARK_FIELD_SIZE lib)) (\<lambda>_.
     Inr \<lparr>rawPubKey = raw\<rparr>)))"

definition PubKey_asArray :: "PubKey \<Rightarrow> int list" where
  "PubKey_asArray pk = [rawPubKey pk ! 0, rawPubKey pk ! 1]"

text \<open>
  Node's \<^verbatim>\<open>Buffer\<close>: \<^verbatim>\<open>buf.toString('hex')\<close> writes two lowercase digits per byte;
  \<^verbatim>\<open>Buffer.from(text, 'hex')\<close> reads pairs of digits and stops, without an error, at
  the first pair that is not hexadecimal.
\<close>

definition Buffer_toString_hex :: "8 word list \<Rightarrow> string" where
  "Buffer_toString_hex bs =
     concat (map (\<lambda>b. [hex_digit_char (unat b div 16), hex_digit_char (unat b mod 16)]) bs)"

fun Buffer_from_hex :: "string \<Rightarrow> 8 word list" where
  "Buffer_from_hex (a # b # cs) =
     (case hex_digit_value a of
        None \<Rightarrow> []
      | Some h \<Rightarrow>
          (case hex_digit_value b of
             None \<Rightarrow> []
           | Some l \<Rightarrow> of_nat (16 * h + l) # Buffer_from_hex cs))"
| "Buffer_from_hex _ = []"

text \<open>
  \<^verbatim>\<open>serialize\<close> (lines 113-123). \<^verbatim>\<open>packed\<close> is already a string when
  \<^verbatim>\<open>packed.toString(16)\<close> is called, and a string's \<^verbatim>\<open>toString\<close> returns it unchanged.
\<close>

definition PubKey_serialize :: "maci_crypto \<Rightarrow> PubKey \<Rightarrow> error + string" where
  "PubKey_serialize lib pk =
     (if rawPubKey pk ! 0 = 0 \<and> rawPubKey pk ! 1 = 0
      then Inr (SERIALIZED_PUB_KEY_PREFIX @ ''z'')
      else bind_err (packPubKey lib (rawPubKey pk)) (\<lambda>buf.
             let packed = Buffer_toString_hex buf
             in Inr (SERIALIZED_PUB_KEY_PREFIX @ packed)))"

definition PubKey_unserialize :: "maci_crypto \<Rightarrow> string \<Rightarrow> error + PubKey" where
  "PubKey_unserialize lib s =
     (if s = SERIALIZED_PUB_KEY_PREFIX @ ''z''
      then new_PubKey lib [0, 0]
      else let len = length SERIALIZED_PUB_KEY_PREFIX;
               packed = Buffer_from_hex (slice_from s len)
           in bind_err (unpackPubKey lib packed) (new_PubKey lib))"

section \<open>Keypair\<close>

record Keypair =
  privKey :: PrivKey
  pubKey :: PubKey

text \<open>
  The constructor (lines 155-166). \<open>rawKeyPair\<close> is what the random \<^verbatim>\<open>genKeypair()\<close>
  returned, private key first; it is read only when no private key is given.
\<close>

definition new_Keypair :: "maci_crypto \<Rightarrow> int \<times> int list \<Rightarrow> PrivKey option \<Rightarrow> error + Keypair" where
  "new_Keypair lib rawKeyPair privKeyOpt =
     (case privKeyOpt of
        Some sk \<Rightarrow>
          bind_err (genPubKey lib (rawPrivKey sk)) (\<lambda>raw.
          bind_err (new_PubKey lib raw) (\<lambda>pk.
          Inr \<lparr>privKey = sk, pubKey = pk\<rparr>))
      | None \<Rightarrow>
          bind_err (new_PubKey lib (snd rawKeyPair)) (\<lambda>pk.
          Inr \<lparr>privKey = new_PrivKey (fst rawKeyPair), pubKey = pk\<rparr>))"

definition Keypair_genEcdhSharedKey :: "maci_crypto \<Rightarrow> PrivKey \<Rightarrow> PubKey \<Rightarrow> error + int" where
  "Keypair_genEcdhSharedKey lib sk pk = genEcdhSharedKey lib (rawPrivKey sk) (rawPubKey pk)"

text \<open>
  \<^verbatim>\<open>equals\<close> (lines 179-197); \<^verbatim>\<open>===\<close> on two big integers compares their values.
\<close>

definition equalPrivKey :: "Keypair \<Rightarrow> Keypair \<Rightarrow> bool" where
  "equalPrivKey this keypair = (rawPrivKey (privKey this) = rawPrivKey (privKey keypair))"

definition equalPubKey :: "Keypair \<Rightarrow> Keypair \<Rightarrow> bool" where
  "equalPubKey this keypair =
     (rawPubKey (pubKey this) ! 0 = rawPubKey (pubKey keypair) ! 0 \<and>
      rawPubKey (pubKey this) ! 1 = rawPubKey (pubKey keypair) ! 1)"

definition Keypair_equals :: "Keypair \<Rightarrow> Keypair \<Rightarrow> error + bool" where
  "Keypair_equals this keypair =
     (let x = (equalPrivKey this keypair \<and> equalPubKey this keypair);
          y = (\<not> equalPrivKey this keypair \<and> \<not> equalPubKey this keypair)
      in bind_err (assert ((x \<and> \<not> y) \<or> (\<not> x \<and> y))) (\<lambda>_.
         Inr (equalPrivKey this keypair)))"

section \<open>Message\<close>

definition new_Message :: "int \<Rightarrow> int list \<Rightarrow> error + Message" where
  "new_Message i d = bind_err (assert (length d = 10)) (\<lambda>_. Inr \<lparr>iv = i, data = d\<rparr>)"

section \<open>StateLeaf\<close>

record StateLeaf =
  pubKey :: PubKey
  voteOptionTreeRoot :: int
  voiceCreditBalance :: int
  nonce :: int

definition new_StateLeaf :: "PubKey \<Rightarrow> int \<Rightarrow> int \<Rightarrow> int \<Rightarrow> StateLeaf" where
  "new_StateLeaf pk root balance n =
     \<lparr>pubKey = pk, voteOptionTreeRoot = root, voiceCreditBalance = balance, nonce = n\<rparr>"

definition genBlankLeaf :: "maci_crypto \<Rightarrow> int \<Rightarrow> error + StateLeaf" where
  "genBlankLeaf lib emptyVoteOptionTreeRoot =
     bind_err (new_PubKey lib [0, 0]) (\<lambda>pk.
     Inr (new_StateLeaf pk emptyVoteOptionTreeRoot 0 0))"

definition StateLeaf_asArray :: "StateLeaf \<Rightarrow> int list" where
  "StateLeaf_asArray leaf =
     PubKey_asArray (pubKey leaf) @
     [voteOptionTreeRoot leaf, voiceCreditBalance leaf, nonce leaf]"

definition StateLeaf_hash :: "maci_crypto \<Rightarrow> StateLeaf \<Rightarrow> error + int" where
  "StateLeaf_hash lib leaf = hash5 lib (StateLeaf_asArray leaf)"

section \<open>Command\<close>

record Command =
  stateIndex :: int
  newPubKey :: PubKey
  voteOptionIndex :: int
  newVoteWeight :: int
  nonce :: int
  salt :: int

text \<open>
  The constructor (lines 380-394); the default \<^verbatim>\<open>salt\<close>, a random draw, is an
  explicit argument.
\<close>

definition new_Command :: "int \<Rightarrow> PubKey \<Rightarrow> int \<Rightarrow> int \<Rightarrow> int \<Rightarrow> int \<Rightarrow> Command" where
  "new_Command si pk voi nvw n s =
     \<lparr>stateIndex = si, newPubKey = pk, voteOptionIndex = voi, newVoteWeight = nvw,
      nonce = n, salt = s\<rparr>"

definition Command_asArray :: "Command \<Rightarrow> int list" where
  "Command_asArray c =
     [stateIndex c] @ PubKey_asArray (newPubKey c) @
     [voteOptionIndex c, newVoteWeight c, nonce c, salt c]"

text \<open>
  \<^verbatim>\<open>this.newPubKey[0]\<close> (lines 426-427) reads the property \<^verbatim>\<open>0\<close> of a \<^verbatim>\<open>PubKey\<close>
  object, not of its array \<^verbatim>\<open>rawPubKey\<close>. Class \<^verbatim>\<open>PubKey\<close> (lines 77-149) has the
  properties \<^verbatim>\<open>rawPubKey\<close>, \<^verbatim>\<open>copy\<close>, \<^verbatim>\<open>asContractParam\<close>, \<^verbatim>\<open>asCircuitInputs\<close>,
  \<^verbatim>\<open>asArray\<close> and \<^verbatim>\<open>serialize\<close> and no other, so the read yields \<^verbatim>\<open>undefined\<close>
  for every index.
\<close>

definition PubKey_index :: "PubKey \<Rightarrow> nat \<Rightarrow> js_value" where
  "PubKey_index pk i = JSUndefined"

definition Command_equals :: "Command \<Rightarrow> Command \<Rightarrow> bool" where
  "Command_equals this command =
     (js_loose_eq (JSBigInt (stateIndex this)) (JSBigInt (stateIndex command)) \<and>
      js_loose_eq (PubKey_index (newPubKey this) 0) (PubKey_index (newPubKey command) 0) \<and>
      js_loose_eq (PubKey_index (newPubKey this) 1) (PubKey_index (newPubKey command) 1) \<and>
      js_loose_eq (JSBigInt (voteOptionIndex this)) (JSBigInt (voteOptionIndex command)) \<and>
      js_loose_eq (JSBigInt (newVoteWeight this)) (JSBigInt (newVoteWeight command)) \<and>
      js_loose_eq (JSBigInt (nonce this)) (JSBigInt (nonce command)) \<and>
      js_loose_eq (JSBigInt (salt this)) (JSBigInt (salt command)))"

definition Command_hash :: "maci_crypto \<Rightarrow> Command \<Rightarrow> error + int" where
  "Command_hash lib c = hash11 lib (Command_asArray c)"

definition Command_sign :: "maci_crypto \<Rightarrow> Command \<Rightarrow> PrivKey \<Rightarrow> error + Signature" where
  "Command_sign lib c sk = bind_err (Command_hash lib c) (\<lambda>h. sign lib (rawPrivKey sk) h)"

definition Command_encrypt :: "maci_crypto \<Rightarrow> Command \<Rightarrow> Signature \<Rightarrow> int \<Rightarrow> error + Message" where
  "Command_encrypt lib c signature sharedKey =
     (let plaintext = Command_asArray c @ [fst (R8 signature), snd (R8 signature), S signature]
      in bind_err (encrypt lib plaintext sharedKey) (\<lambda>ciphertext.
         new_Message (iv ciphertext) (data ciphertext)))"

text \<open>
  \<^verbatim>\<open>decrypt\<close> (lines 489-511). When the library returns fewer than three elements,
  \<^verbatim>\<open>new PubKey\<close> receives \<^verbatim>\<open>undefined\<close>, and \<^verbatim>\<open>undefined < SNARK_FIELD_SIZE\<close> is
  false: the assertion fails. With three to nine elements the source returns an object
  some of whose fields are \<^verbatim>\<open>undefined\<close>, which is \<open>UndefinedValue\<close> here.
\<close>

definition Command_decrypt :: "maci_crypto \<Rightarrow> Message \<Rightarrow> int \<Rightarrow> error + Command \<times> Signature" where
  "Command_decrypt lib message sharedKey =
     bind_err (decrypt lib message sharedKey) (\<lambda>decrypted.
     bind_err (if length decrypted < 3 then Inl AssertionError
               else new_PubKey lib [decrypted ! 1, decrypted ! 2]) (\<lambda>pk.
     if length decrypted < 10 then Inl UndefinedValue
     else let command = new_Command (decrypted ! 0) pk (decrypted ! 3) (decrypted ! 4)
                          (decrypted ! 5) (decrypted ! 6);
              signature = \<lparr>R8 = (decrypted ! 7, decrypted ! 8), S = decrypted ! 9\<rparr>
          in Inr (command, signature)))"

section \<open>What the specification says of the library\<close>

text \<open>
  Modelled from the spec: \<^verbatim>\<open>genEcdhSharedKey\<close> and \<^verbatim>\<open>genPubKey\<close> are functions of
  \<^verbatim>\<open>maci-crypto\<close>, absent from the sources. Section 4.3: "By ECDH correctness,
  ecdhSharedKey(A.priv, B.pub) == ecdhSharedKey(B.priv, A.pub)", where each public key
  is the one derived from the private key.
\<close>

definition ecdh_symmetric :: "maci_crypto \<Rightarrow> bool" where
  "ecdh_symmetric lib =
     (\<forall>a b pa pb. genPubKey lib a = Inr pa \<longrightarrow> genPubKey lib b = Inr pb \<longrightarrow>
        genEcdhSharedKey lib a pb = genEcdhSharedKey lib b pa)"

text \<open>
  Modelled from the spec: \<^verbatim>\<open>encrypt\<close> and \<^verbatim>\<open>decrypt\<close> are functions of
  \<^verbatim>\<open>maci-crypto\<close>, absent from the sources. Section 4.5: "the external decryption
  routine is agnostic to field semantics and merely inverts the byte/field transform".
\<close>

definition decrypt_inverts_encrypt :: "maci_crypto \<Rightarrow> bool" where
  "decrypt_inverts_encrypt lib =
     (\<forall>plaintext k ciphertext. encrypt lib plaintext k = Inr ciphertext \<longrightarrow>
        decrypt lib ciphertext k = Inr plaintext)"

text \<open>
  Modelled from the spec: \<^verbatim>\<open>genPubKey\<close> is a function of \<^verbatim>\<open>maci-crypto\<close>, absent
  from the sources. Section 3: "two key pairs have equal private keys iff they have
  equal public keys (derivation is a bijection in practice ...)".
\<close>

definition genPubKey_injective :: "maci_crypto \<Rightarrow> bool" where
  "genPubKey_injective lib =
     (\<forall>a b pa. genPubKey lib a = Inr pa \<longrightarrow> genPubKey lib b = Inr pa \<longrightarrow> a = b)"

text \<open>
  Modelled from the spec: \<^verbatim>\<open>genKeypair\<close> is a function of \<^verbatim>\<open>maci-crypto\<close>, absent
  from the sources. Section 3: a public key is "derived deterministically from a
  PrivateKey via the external library"; a generated pair holds a private key and the
  public key derived from it.
\<close>

definition genKeypair_derived :: "maci_crypto \<Rightarrow> int \<times> int list \<Rightarrow> bool" where
  "genKeypair_derived lib rawKeyPair = (genPubKey lib (fst rawKeyPair) = Inr (snd rawKeyPair))"

text \<open>
  A small instance of the library interface, on which the statements below are run.
  It is not the real library: the modulus is a large positive number, keys are derived
  by \<open>sk \<mapsto> [sk, sk + 1]\<close>, a shared key is a product, encryption adds the key to each
  element, and packing always throws.
\<close>

definition example_lib :: maci_crypto where
  "example_lib =
     \<lparr>SNARK_FIELD_SIZE = 21888242871839275222246405745257275088548364400416034343698204186575808495617,
      genPubKey = (\<lambda>sk. Inr [sk, sk + 1]),
      genEcdhSharedKey = (\<lambda>sk pub. Inr (sk * hd pub)),
      packPubKey = (\<lambda>raw. Inl CryptoFailure),
      unpackPubKey = (\<lambda>buf. Inl CryptoFailure),
      hash5 = (\<lambda>xs. Inr (sum_list xs)),
      hash11 = (\<lambda>xs. Inr (sum_list xs)),
      sign = (\<lambda>sk h. Inr \<lparr>R8 = (h, sk), S = h + sk\<rparr>),
      encrypt = (\<lambda>plaintext k. Inr \<lparr>iv = k, data = map (\<lambda>x. x + k) plaintext\<rparr>),
      decrypt = (\<lambda>ciphertext k. Inr (map (\<lambda>x. x - k) (data ciphertext)))\<rparr>"

section \<open>Hexadecimal round trip\<close>

declare toString16_nat.simps [simp del]

lemma hex_digit_value_char: "d < 16 \<Longrightarrow> hex_digit_value (hex_digit_char d) = Some d"
proof -
  assume "d < 16"
  then have "d \<in> {0, 1, 2, 3, 4, 5, 6, 7, 8, 9, 10, 11, 12, 13, 14, 15}"
    by simp arith
  then show ?thesis
    by (auto simp: hex_digit_value_def hex_digit_char_def)
qed

lemma hex_digits_value_append:
  "hex_digits_value acc (xs @ ys) =
     (case hex_digits_value acc xs of None \<Rightarrow> None | Some a \<Rightarrow> hex_digits_value a ys)"
  by (induction xs arbitrary: acc) (auto split: option.splits)

lemma toString16_nat_nonempty: "toString16_nat n \<noteq> []"
  by (induction n rule: toString16_nat.induct) (subst toString16_nat.simps, simp)

lemma hex_digits_value_toString16_nat: "hex_digits_value 0 (toString16_nat n) = Some n"
proof (induction n rule: toString16_nat.induct)
  case (1 n)
  show ?case
  proof (cases "n < 16")
    case True
    then show ?thesis
      by (subst toString16_nat.simps) (simp add: hex_digit_value_char)
  next
    case False
    have d: "hex_digit_value (hex_digit_char (n mod 16)) = Some (n mod 16)"
      by (rule hex_digit_value_char) simp
    from False 1 have ih: "hex_digits_value 0 (toString16_nat (n div 16)) = Some (n div 16)"
      by simp
    show ?thesis
      using False
      by (subst toString16_nat.simps) (simp add: hex_digits_value_append ih d)
  qed
qed

lemma hex_digit_char_lower: "d < 16 \<Longrightarrow> hex_digit_char d \<in> set ''0123456789abcdef''"
  unfolding hex_digit_char_def by (rule nth_mem) simp

lemma toString16_nat_lower: "set (toString16_nat n) \<subseteq> set ''0123456789abcdef''"
proof (induction n rule: toString16_nat.induct)
  case (1 n)
  show ?case
  proof (cases "n < 16")
    case True
    then show ?thesis
      using hex_digit_char_lower [of n] by (subst toString16_nat.simps) simp
  next
    case False
    have "hex_digit_char (n mod 16) \<in> set ''0123456789abcdef''"
      by (rule hex_digit_char_lower) simp
    with False 1 show ?thesis
      by (subst toString16_nat.simps) simp
  qed
qed

lemma trim_end_last: "xs \<noteq> [] \<Longrightarrow> \<not> StrWhiteSpaceChar (last xs) \<Longrightarrow> trim_end xs = xs"
  by (cases xs rule: rev_cases) (simp_all add: trim_end_def)

lemma trim_end_toString16_nat: "trim_end (toString16_nat n) = toString16_nat n"
proof (rule trim_end_last)
  show ne: "toString16_nat n \<noteq> []"
    by (rule toString16_nat_nonempty)
  then have "last (toString16_nat n) \<in> set ''0123456789abcdef''"
    using toString16_nat_lower [of n] last_in_set by blast
  then show "\<not> StrWhiteSpaceChar (last (toString16_nat n))"
    by (auto simp: StrWhiteSpaceChar_def)
qed

lemma bigInt_0x_toString16: "0 \<le> v \<Longrightarrow> bigInt_0x (toString16 v) = Inr v"
  by (simp add: bigInt_0x_def toString16_def trim_end_toString16_nat toString16_nat_nonempty
      hex_digits_value_toString16_nat)

lemma bind_err_Inr_iff: "(bind_err m f = Inr y) = (\<exists>v. m = Inr v \<and> f v = Inr y)"
  by (cases m) (simp_all add: bind_err_def)

lemma bind_err_simps: "bind_err (Inl e) f = Inl e" "bind_err (Inr v) f = f v"
  by (simp_all add: bind_err_def)

lemma priv_prefix_length: "length SERIALIZED_PRIV_KEY_PREFIX = 7"
  by (simp add: SERIALIZED_PRIV_KEY_PREFIX_def)

section \<open>Constructors and assertions\<close>

lemma new_PubKey_Inr_iff:
  "(new_PubKey lib raw = Inr pk) =
     (length raw = 2 \<and> raw ! 0 < SNARK_FIELD_SIZE lib \<and> raw ! 1 < SNARK_FIELD_SIZE lib \<and>
      pk = \<lparr>rawPubKey = raw\<rparr>)"
  by (auto simp: new_PubKey_def assert_def bind_err_def)

lemma new_PubKey_pair:
  "a < SNARK_FIELD_SIZE lib \<Longrightarrow> b < SNARK_FIELD_SIZE lib \<Longrightarrow>
   new_PubKey lib [a, b] = Inr \<lparr>rawPubKey = [a, b]\<rparr>"
  by (simp add: new_PubKey_Inr_iff)

lemma length_two: "length xs = 2 \<Longrightarrow> xs = [xs ! 0, xs ! 1]"
  by (cases xs; cases "tl xs") auto

lemma two_elements_eq:
  "length xs = 2 \<Longrightarrow> length ys = 2 \<Longrightarrow> (xs ! 0 = ys ! 0 \<and> xs ! 1 = ys ! 1) = (xs = ys)"
  using length_two [of xs] length_two [of ys] by metis

lemma new_Keypair_Some_iff:
  "(new_Keypair lib rk (Some sk) = Inr A) =
     (\<exists>raw. genPubKey lib (rawPrivKey sk) = Inr raw \<and> length raw = 2 \<and>
        raw ! 0 < SNARK_FIELD_SIZE lib \<and> raw ! 1 < SNARK_FIELD_SIZE lib \<and>
        A = \<lparr>privKey = sk, pubKey = \<lparr>rawPubKey = raw\<rparr>\<rparr>)"
  by (auto simp: new_Keypair_def bind_err_Inr_iff new_PubKey_Inr_iff)

lemma new_Keypair_None_iff:
  "(new_Keypair lib rk None = Inr A) =
     (length (snd rk) = 2 \<and> snd rk ! 0 < SNARK_FIELD_SIZE lib \<and>
      snd rk ! 1 < SNARK_FIELD_SIZE lib \<and>
      A = \<lparr>privKey = \<lparr>rawPrivKey = fst rk\<rparr>, pubKey = \<lparr>rawPubKey = snd rk\<rparr>\<rparr>)"
  by (auto simp: new_Keypair_def bind_err_Inr_iff new_PubKey_Inr_iff new_PrivKey_def)

lemma new_Keypair_derived:
  assumes "new_Keypair lib rk opt = Inr A" and "genKeypair_derived lib rk"
  shows "genPubKey lib (rawPrivKey (privKey A)) = Inr (rawPubKey (Keypair.pubKey A))"
proof (cases opt)
  case None
  with assms show ?thesis
    by (auto simp: new_Keypair_None_iff genKeypair_derived_def)
next
  case (Some sk)
  with assms show ?thesis
    by (auto simp: new_Keypair_Some_iff)
qed

lemma Keypair_equals_cases:
  "Keypair_equals X Y =
     (if equalPrivKey X Y = equalPubKey X Y then Inr (equalPrivKey X Y)
      else Inl AssertionError)"
  by (auto simp: Keypair_equals_def assert_def bind_err_def)

lemma Command_equals_iff:
  "Command_equals c d =
     (stateIndex c = stateIndex d \<and> voteOptionIndex c = voteOptionIndex d \<and>
      newVoteWeight c = newVoteWeight d \<and> Command.nonce c = Command.nonce d \<and>
      salt c = salt d)"
  by (auto simp: Command_equals_def PubKey_index_def)

lemma Command_encrypt_Inr:
  assumes "Command_encrypt lib c s k = Inr m"
  shows "encrypt lib (Command_asArray c @ [fst (R8 s), snd (R8 s), S s]) k = Inr m"
proof -
  from assms obtain ct
    where ct: "encrypt lib (Command_asArray c @ [fst (R8 s), snd (R8 s), S s]) k = Inr ct"
      and m: "new_Message (iv ct) (data ct) = Inr m"
    by (auto simp: Command_encrypt_def bind_err_Inr_iff)
  from m have "m = ct"
    by (auto simp: new_Message_def assert_def bind_err_def split: if_splits)
  with ct show ?thesis by simp
qed

section \<open>The example library meets what the specification says\<close>

lemma example_lib_injective: "genPubKey_injective example_lib"
  by (simp add: genPubKey_injective_def example_lib_def)

lemma example_lib_ecdh: "ecdh_symmetric example_lib"
  by (auto simp: ecdh_symmetric_def example_lib_def)

lemma example_lib_decrypt: "decrypt_inverts_encrypt example_lib"
  by (auto simp: decrypt_inverts_encrypt_def example_lib_def comp_def)

lemma example_Keypair:
  "sk + 1 < SNARK_FIELD_SIZE example_lib \<Longrightarrow>
   new_Keypair example_lib rk (Some \<lparr>rawPrivKey = sk\<rparr>) =
     Inr \<lparr>privKey = \<lparr>rawPrivKey = sk\<rparr>, pubKey = \<lparr>rawPubKey = [sk, sk + 1]\<rparr>\<rparr>"
  by (simp add: new_Keypair_Some_iff) (simp add: example_lib_def)

section \<open>PrivKey: serialisation\<close>

text \<open>
  Claim C6. For every scalar \<open>k\<close> with \<open>0 \<le> k < P\<close>, \<^verbatim>\<open>serialize\<close> of the private key
  \<open>k\<close> is \<^verbatim>\<open>"macisk."\<close> followed by the lowercase hexadecimal digits of \<open>k\<close>, and
  \<^verbatim>\<open>unserialize\<close> of that string is a private key whose raw value is \<open>k\<close>.
\<close>

theorem PrivKey_serialize_unserialize_roundtrip:
  assumes "0 \<le> k" and "k < SNARK_FIELD_SIZE lib"
  shows "PrivKey_serialize (new_PrivKey k) = ''macisk.'' @ toString16 k \<and>
         set (toString16 k) \<subseteq> set ''0123456789abcdef'' \<and>
         PrivKey_unserialize (PrivKey_serialize (new_PrivKey k)) = Inr (new_PrivKey k) \<and>
         rawPrivKey (new_PrivKey k) = k"
  using assms toString16_nat_lower [of "nat k"]
  by (simp add: PrivKey_serialize_def PrivKey_unserialize_def new_PrivKey_def
      SERIALIZED_PRIV_KEY_PREFIX_def slice_from_def bigInt_0x_toString16 bind_err_simps)
    (simp add: toString16_def)

text \<open>The round trip at \<open>k = 255\<close>, which is written \<^verbatim>\<open>macisk.ff\<close>.\<close>

theorem PrivKey_serialize_unserialize_roundtrip_witness:
  "PrivKey_serialize (new_PrivKey 255) = ''macisk.ff'' \<and>
   PrivKey_unserialize ''macisk.ff'' = Inr \<lparr>rawPrivKey = 255\<rparr>"
  using PrivKey_serialize_unserialize_roundtrip [of 255 example_lib]
  by (auto simp: example_lib_def new_PrivKey_def toString16_def toString16_nat.simps
      hex_digit_char_def)

text \<open>
  \<^verbatim>\<open>unserialize\<close> (lines 54-57) slices seven characters off and never compares them
  with the prefix: the string \<^verbatim>\<open>abcdefg5\<close> does not start with \<^verbatim>\<open>macisk.\<close> and is
  read as the private key 5.
\<close>

theorem PrivKey_unserialize_prefix_counterexample:
  "\<not> startsWith ''abcdefg5'' SERIALIZED_PRIV_KEY_PREFIX \<and>
   PrivKey_unserialize ''abcdefg5'' = Inr \<lparr>rawPrivKey = 5\<rparr>"
  by (simp add: startsWith_def SERIALIZED_PRIV_KEY_PREFIX_def PrivKey_unserialize_def
      slice_from_def bigInt_0x_def trim_end_def StrWhiteSpaceChar_def hex_digit_value_def
      bind_err_def new_PrivKey_def)

text \<open>
  Claim C3, as the code has it. \<^verbatim>\<open>PrivKey.unserialize(s)\<close> does not look at the first
  seven characters of \<open>s\<close>. It returns the private key \<open>k\<close> exactly when
  \<^verbatim>\<open>bigInt('0x' + rest)\<close> reads the text after them as the number \<open>rawPrivKey k\<close>; it
  fails exactly when that call fails, the text not being valid hexadecimal; and any
  seven characters in front give the result that \<^verbatim>\<open>macisk.\<close> gives.
\<close>

theorem PrivKey_unserialize_ignores_prefix:
  "(PrivKey_unserialize s = Inr k \<longleftrightarrow> bigInt_0x (slice_from s 7) = Inr (rawPrivKey k)) \<and>
   ((\<exists>e. PrivKey_unserialize s = Inl e) \<longleftrightarrow> (\<exists>e. bigInt_0x (slice_from s 7) = Inl e)) \<and>
   (length p = 7 \<longrightarrow>
      PrivKey_unserialize (p @ h) = PrivKey_unserialize (SERIALIZED_PRIV_KEY_PREFIX @ h))"
proof (intro conjI impI)
  show "PrivKey_unserialize s = Inr k \<longleftrightarrow> bigInt_0x (slice_from s 7) = Inr (rawPrivKey k)"
    by (cases k) (auto simp: PrivKey_unserialize_def priv_prefix_length
        bind_err_Inr_iff new_PrivKey_def)
next
  show "(\<exists>e. PrivKey_unserialize s = Inl e) \<longleftrightarrow> (\<exists>e. bigInt_0x (slice_from s 7) = Inl e)"
    by (cases "bigInt_0x (slice_from s 7)")
      (simp_all add: PrivKey_unserialize_def priv_prefix_length bind_err_def)
next
  assume "length p = 7"
  then show "PrivKey_unserialize (p @ h) = PrivKey_unserialize (SERIALIZED_PRIV_KEY_PREFIX @ h)"
    by (simp add: PrivKey_unserialize_def SERIALIZED_PRIV_KEY_PREFIX_def slice_from_def)
qed

text \<open>
  On \<^verbatim>\<open>macisk.1f\<close> the key is 31 and \<^verbatim>\<open>abcdefg1f\<close> gives the same; \<^verbatim>\<open>macisk.xy\<close>
  fails; \<^verbatim>\<open>macisk.ff\<close> followed by a space is the key 255.
\<close>

theorem PrivKey_unserialize_ignores_prefix_witness:
  "PrivKey_unserialize ''macisk.1f'' = Inr \<lparr>rawPrivKey = 31\<rparr> \<and>
   PrivKey_unserialize ''abcdefg1f'' = PrivKey_unserialize ''macisk.1f'' \<and>
   (\<exists>e. PrivKey_unserialize ''macisk.xy'' = Inl e) \<and>
   PrivKey_unserialize ''macisk.ff '' = Inr \<lparr>rawPrivKey = 255\<rparr>"
  using PrivKey_unserialize_ignores_prefix
    [of "''macisk.1f''" "\<lparr>rawPrivKey = 31\<rparr>" "''abcdefg''" "''1f''"]
    PrivKey_unserialize_ignores_prefix
    [of "''macisk.xy''" "\<lparr>rawPrivKey = 0\<rparr>" "''abcdefg''" "''1f''"]
    PrivKey_unserialize_ignores_prefix
    [of "''macisk.ff ''" "\<lparr>rawPrivKey = 255\<rparr>" "''abcdefg''" "''1f''"]
  by (simp add: slice_from_def bigInt_0x_def trim_end_def StrWhiteSpaceChar_def
      hex_digit_value_def SERIALIZED_PRIV_KEY_PREFIX_def)

text \<open>
  Claim C5. \<^verbatim>\<open>PrivKey.isValidSerializedPrivKey(s)\<close> returns a boolean for every string
  \<open>s\<close>, malformed hexadecimal included, and never an error; the boolean is true exactly
  when \<open>s\<close> starts with \<^verbatim>\<open>macisk.\<close> and the rest decodes as hexadecimal to a value
  strictly below the field modulus.
\<close>

theorem isValidSerializedPrivKey_iff:
  "isValidSerializedPrivKey lib s =
     Inr (startsWith s SERIALIZED_PRIV_KEY_PREFIX \<and>
          (\<exists>v. bigInt_0x (slice_from s (length SERIALIZED_PRIV_KEY_PREFIX)) = Inr v \<and>
               v < SNARK_FIELD_SIZE lib))"
  by (cases "bigInt_0x (slice_from s (length SERIALIZED_PRIV_KEY_PREFIX))")
    (simp_all add: isValidSerializedPrivKey_def try_catch_def bind_err_def)

text \<open>
  A valid key, a key with malformed digits and a key with a wrong prefix.
\<close>

theorem isValidSerializedPrivKey_iff_witness:
  "isValidSerializedPrivKey example_lib ''macisk.ff'' = Inr True \<and>
   isValidSerializedPrivKey example_lib ''macisk.xy'' = Inr False \<and>
   isValidSerializedPrivKey example_lib ''abcdefgff'' = Inr False"
  using isValidSerializedPrivKey_iff [of example_lib "''macisk.ff''"]
    isValidSerializedPrivKey_iff [of example_lib "''macisk.xy''"]
    isValidSerializedPrivKey_iff [of example_lib "''abcdefgff''"]
  by (simp add: startsWith_def slice_from_def bigInt_0x_def trim_end_def StrWhiteSpaceChar_def
      hex_digit_value_def SERIALIZED_PRIV_KEY_PREFIX_def example_lib_def)

text \<open>
  Claim C10. \<^verbatim>\<open>PrivKey.unserialize\<close> makes no field-range check: on \<^verbatim>\<open>macisk.\<close>
  followed by valid hexadecimal for a value \<open>v\<close> at or above the field modulus it
  returns the private key with raw value \<open>v\<close>, while \<^verbatim>\<open>isValidSerializedPrivKey\<close>
  returns false on the same string.
\<close>

theorem PrivKey_unserialize_no_range_check:
  assumes "bigInt_0x h = Inr v" and "SNARK_FIELD_SIZE lib \<le> v"
  shows "PrivKey_unserialize (SERIALIZED_PRIV_KEY_PREFIX @ h) = Inr (new_PrivKey v) \<and>
         rawPrivKey (new_PrivKey v) = v \<and>
         isValidSerializedPrivKey lib (SERIALIZED_PRIV_KEY_PREFIX @ h) = Inr False"
  using assms
  by (simp add: PrivKey_unserialize_def isValidSerializedPrivKey_def slice_from_def
      try_catch_def bind_err_def new_PrivKey_def)

text \<open>The string of 64 digits \<^verbatim>\<open>f\<close>, the value \<open>2\<^sup>2\<^sup>5\<^sup>6 - 1\<close>.\<close>

theorem PrivKey_unserialize_no_range_check_witness:
  "PrivKey_unserialize
     ''macisk.ffffffffffffffffffffffffffffffffffffffffffffffffffffffffffffffff'' =
     Inr \<lparr>rawPrivKey = 2 ^ 256 - 1\<rparr> \<and>
   isValidSerializedPrivKey example_lib
     ''macisk.ffffffffffffffffffffffffffffffffffffffffffffffffffffffffffffffff'' = Inr False"
proof -
  have h: "bigInt_0x ''ffffffffffffffffffffffffffffffffffffffffffffffffffffffffffffffff'' =
    Inr (2 ^ 256 - 1)"
    by (simp add: bigInt_0x_def trim_end_def StrWhiteSpaceChar_def hex_digit_value_def)
  have p: "SNARK_FIELD_SIZE example_lib \<le> 2 ^ 256 - 1"
    by (simp add: example_lib_def)
  show ?thesis
    using PrivKey_unserialize_no_range_check [OF h p]
    by (simp add: SERIALIZED_PRIV_KEY_PREFIX_def new_PrivKey_def)
qed

section \<open>PubKey\<close>

text \<open>
  Claim C9. The \<^verbatim>\<open>PubKey\<close> constructor checks only the upper bound of each
  coordinate: for every two-element array whose entries are both strictly below the
  field modulus, construction succeeds and stores the array as it is. The entries are
  integers of either sign; nothing asks for them to be non-negative.
\<close>

theorem new_PubKey_upper_bound_only:
  assumes "length raw = 2"
    and "raw ! 0 < SNARK_FIELD_SIZE lib" and "raw ! 1 < SNARK_FIELD_SIZE lib"
  shows "new_PubKey lib raw = Inr \<lparr>rawPubKey = raw\<rparr>"
  using assms by (simp add: new_PubKey_Inr_iff)

text \<open>The array \<open>[-1, -5]\<close>, both entries below zero, is accepted.\<close>

theorem new_PubKey_upper_bound_only_witness:
  "new_PubKey example_lib [- 1, - 5] = Inr \<lparr>rawPubKey = [- 1, - 5]\<rparr> \<and>
   \<not> (0 \<le> [- 1, - 5 :: int] ! 0) \<and> \<not> (0 \<le> [- 1, - 5 :: int] ! 1)"
  using new_PubKey_upper_bound_only [of "[- 1, - 5]" example_lib]
  by (simp add: example_lib_def)

text \<open>
  Claim C7. With a positive field modulus, \<^verbatim>\<open>serialize\<close> on the public key \<open>(0, 0)\<close>
  returns exactly \<^verbatim>\<open>macipk.z\<close>, \<^verbatim>\<open>unserialize\<close> of \<^verbatim>\<open>macipk.z\<close> returns the
  public key \<open>(0, 0)\<close>, and so the round trip reproduces \<open>(0, 0)\<close>. The packing and
  unpacking routines are not invoked: the results are the same whatever \<open>pack\<close> and
  \<open>unpack\<close> are, also when they always throw.
\<close>

theorem PubKey_zero_sentinel:
  assumes "0 < SNARK_FIELD_SIZE lib"
  shows "PubKey_serialize (lib\<lparr>packPubKey := pack, unpackPubKey := unpack\<rparr>)
           \<lparr>rawPubKey = [0, 0]\<rparr> = Inr ''macipk.z'' \<and>
         PubKey_unserialize (lib\<lparr>packPubKey := pack, unpackPubKey := unpack\<rparr>) ''macipk.z'' =
           Inr \<lparr>rawPubKey = [0, 0]\<rparr> \<and>
         bind_err
           (PubKey_serialize (lib\<lparr>packPubKey := pack, unpackPubKey := unpack\<rparr>)
              \<lparr>rawPubKey = [0, 0]\<rparr>)
           (PubKey_unserialize (lib\<lparr>packPubKey := pack, unpackPubKey := unpack\<rparr>)) =
           Inr \<lparr>rawPubKey = [0, 0]\<rparr>"
  using assms
  by (simp add: PubKey_serialize_def PubKey_unserialize_def SERIALIZED_PUB_KEY_PREFIX_def
      new_PubKey_pair bind_err_def)

text \<open>The sentinel in the example library, whose packing routine always throws.\<close>

theorem PubKey_zero_sentinel_witness:
  "PubKey_serialize example_lib \<lparr>rawPubKey = [0, 0]\<rparr> = Inr ''macipk.z'' \<and>
   PubKey_unserialize example_lib ''macipk.z'' = Inr \<lparr>rawPubKey = [0, 0]\<rparr> \<and>
   packPubKey example_lib [0, 0] = Inl CryptoFailure"
proof -
  have p: "0 < SNARK_FIELD_SIZE example_lib"
    by (simp add: example_lib_def)
  have e: "example_lib\<lparr>packPubKey := packPubKey example_lib,
      unpackPubKey := unpackPubKey example_lib\<rparr> = example_lib"
    by simp
  have "packPubKey example_lib [0, 0] = Inl CryptoFailure"
    by (simp add: example_lib_def)
  then show ?thesis
    using PubKey_zero_sentinel
      [OF p, where pack = "packPubKey example_lib" and unpack = "unpackPubKey example_lib"]
    by (simp only: e)
qed

section \<open>Keypair\<close>

text \<open>
  Claim C4. Let the library derive different public keys from different private keys
  (section 3 of the specification). Two key pairs constructed from the same private
  key have equal public keys and \<^verbatim>\<open>equals\<close> returns true; two constructed from
  different private keys have different public keys and \<^verbatim>\<open>equals\<close> returns false.
  For any two key pairs on which private-key equality and public-key equality
  disagree, \<^verbatim>\<open>equals\<close> raises the assertion failure and returns no boolean.
\<close>

theorem Keypair_equals_invariant:
  assumes inj: "genPubKey_injective lib"
    and A: "new_Keypair lib rkA (Some skA) = Inr A"
    and B: "new_Keypair lib rkB (Some skB) = Inr B"
  shows "(skA = skB \<longrightarrow>
            Keypair.pubKey A = Keypair.pubKey B \<and> Keypair_equals A B = Inr True) \<and>
         (skA \<noteq> skB \<longrightarrow>
            Keypair.pubKey A \<noteq> Keypair.pubKey B \<and> Keypair_equals A B = Inr False) \<and>
         (\<forall>X Y. equalPrivKey X Y \<noteq> equalPubKey X Y \<longrightarrow>
            Keypair_equals X Y = Inl AssertionError)"
proof -
  from A obtain ra where ra: "genPubKey lib (rawPrivKey skA) = Inr ra" "length ra = 2"
    and A': "A = \<lparr>privKey = skA, pubKey = \<lparr>rawPubKey = ra\<rparr>\<rparr>"
    by (auto simp: new_Keypair_Some_iff)
  from B obtain rb where rb: "genPubKey lib (rawPrivKey skB) = Inr rb" "length rb = 2"
    and B': "B = \<lparr>privKey = skB, pubKey = \<lparr>rawPubKey = rb\<rparr>\<rparr>"
    by (auto simp: new_Keypair_Some_iff)
  have priv: "equalPrivKey A B = (skA = skB)"
    by (cases skA; cases skB) (simp add: equalPrivKey_def A' B')
  have pub: "equalPubKey A B = (ra = rb)"
    using two_elements_eq [OF ra(2) rb(2)] by (simp add: equalPubKey_def A' B')
  have same: "ra = rb" if "skA = skB"
    using that ra(1) rb(1) by simp
  have differ: "ra \<noteq> rb" if "skA \<noteq> skB"
  proof
    assume "ra = rb"
    with inj ra(1) rb(1) have "rawPrivKey skA = rawPrivKey skB"
      unfolding genPubKey_injective_def by blast
    with that show False
      by (cases skA; cases skB) simp
  qed
  show ?thesis
  proof (intro conjI impI allI)
    assume "skA = skB"
    then show "Keypair.pubKey A = Keypair.pubKey B"
      using same by (simp add: A' B')
  next
    assume "skA = skB"
    then show "Keypair_equals A B = Inr True"
      using same by (simp add: Keypair_equals_cases priv pub)
  next
    assume "skA \<noteq> skB"
    then show "Keypair.pubKey A \<noteq> Keypair.pubKey B"
      using differ by (simp add: A' B')
  next
    assume "skA \<noteq> skB"
    then show "Keypair_equals A B = Inr False"
      using differ by (simp add: Keypair_equals_cases priv pub)
  next
    fix X Y
    assume "equalPrivKey X Y \<noteq> equalPubKey X Y"
    then show "Keypair_equals X Y = Inl AssertionError"
      by (simp add: Keypair_equals_cases)
  qed
qed

text \<open>
  In the example library: the key pair of 3 against itself, against the key pair of 5,
  and against a pair that holds the private key 5 with the public key of 3.
\<close>

theorem Keypair_equals_invariant_witness:
  "Keypair_equals
     \<lparr>privKey = \<lparr>rawPrivKey = 3\<rparr>, pubKey = \<lparr>rawPubKey = [3, 4]\<rparr>\<rparr>
     \<lparr>privKey = \<lparr>rawPrivKey = 3\<rparr>, pubKey = \<lparr>rawPubKey = [3, 4]\<rparr>\<rparr> = Inr True \<and>
   Keypair_equals
     \<lparr>privKey = \<lparr>rawPrivKey = 3\<rparr>, pubKey = \<lparr>rawPubKey = [3, 4]\<rparr>\<rparr>
     \<lparr>privKey = \<lparr>rawPrivKey = 5\<rparr>, pubKey = \<lparr>rawPubKey = [5, 6]\<rparr>\<rparr> = Inr False \<and>
   Keypair_equals
     \<lparr>privKey = \<lparr>rawPrivKey = 3\<rparr>, pubKey = \<lparr>rawPubKey = [3, 4]\<rparr>\<rparr>
     \<lparr>privKey = \<lparr>rawPrivKey = 5\<rparr>, pubKey = \<lparr>rawPubKey = [3, 4]\<rparr>\<rparr> = Inl AssertionError"
proof -
  have k3: "new_Keypair example_lib (0, []) (Some \<lparr>rawPrivKey = 3\<rparr>) =
      Inr \<lparr>privKey = \<lparr>rawPrivKey = 3\<rparr>, pubKey = \<lparr>rawPubKey = [3, 4]\<rparr>\<rparr>"
    using example_Keypair [of 3] by (simp add: example_lib_def)
  have k5: "new_Keypair example_lib (0, []) (Some \<lparr>rawPrivKey = 5\<rparr>) =
      Inr \<lparr>privKey = \<lparr>rawPrivKey = 5\<rparr>, pubKey = \<lparr>rawPubKey = [5, 6]\<rparr>\<rparr>"
    using example_Keypair [of 5] by (simp add: example_lib_def)
  have d: "equalPrivKey
      \<lparr>privKey = \<lparr>rawPrivKey = 3\<rparr>, pubKey = \<lparr>rawPubKey = [3, 4]\<rparr>\<rparr>
      \<lparr>privKey = \<lparr>rawPrivKey = 5\<rparr>, pubKey = \<lparr>rawPubKey = [3, 4]\<rparr>\<rparr> \<noteq>
    equalPubKey
      \<lparr>privKey = \<lparr>rawPrivKey = 3\<rparr>, pubKey = \<lparr>rawPubKey = [3, 4]\<rparr>\<rparr>
      \<lparr>privKey = \<lparr>rawPrivKey = 5\<rparr>, pubKey = \<lparr>rawPubKey = [3, 4]\<rparr>\<rparr>"
    by (simp add: equalPrivKey_def equalPubKey_def)
  show ?thesis
    using Keypair_equals_invariant [OF example_lib_injective k3 k3]
      Keypair_equals_invariant [OF example_lib_injective k3 k5] d
    by simp
qed

section \<open>StateLeaf\<close>

text \<open>
  Claim C8. With a positive field modulus, \<^verbatim>\<open>StateLeaf.genBlankLeaf(r)\<close> returns,
  for every root \<open>r\<close>, a leaf with \<^verbatim>\<open>pubKey\<close> \<open>(0, 0)\<close>, \<^verbatim>\<open>voteOptionTreeRoot\<close> \<open>r\<close>,
  \<^verbatim>\<open>voiceCreditBalance\<close> 0 and \<^verbatim>\<open>nonce\<close> 0. Its \<^verbatim>\<open>hash()\<close> is the 5-ary hash of
  \<open>[0, 0, r, 0, 0]\<close>, that is of \<open>[pubKey.x, pubKey.y, voteOptionTreeRoot,
  voiceCreditBalance, nonce]\<close>, and a second call with an equal root gives a leaf with
  the same hash.
\<close>

theorem genBlankLeaf_deterministic:
  assumes "0 < SNARK_FIELD_SIZE lib"
  shows "\<exists>leaf. genBlankLeaf lib r = Inr leaf \<and>
           StateLeaf.pubKey leaf = \<lparr>rawPubKey = [0, 0]\<rparr> \<and>
           voteOptionTreeRoot leaf = r \<and>
           voiceCreditBalance leaf = 0 \<and>
           StateLeaf.nonce leaf = 0 \<and>
           StateLeaf_hash lib leaf = hash5 lib [0, 0, r, 0, 0] \<and>
           (\<forall>r' leaf'. r' = r \<longrightarrow> genBlankLeaf lib r' = Inr leaf' \<longrightarrow>
              StateLeaf_hash lib leaf' = StateLeaf_hash lib leaf)"
  using assms
  by (simp add: genBlankLeaf_def new_PubKey_pair bind_err_def new_StateLeaf_def
      StateLeaf_hash_def StateLeaf_asArray_def PubKey_asArray_def)

text \<open>The blank leaf over the root 7; the example hash is the sum, 7.\<close>

theorem genBlankLeaf_deterministic_witness:
  "genBlankLeaf example_lib 7 = Inr (new_StateLeaf \<lparr>rawPubKey = [0, 0]\<rparr> 7 0 0) \<and>
   StateLeaf_hash example_lib (new_StateLeaf \<lparr>rawPubKey = [0, 0]\<rparr> 7 0 0) = Inr 7"
proof -
  have p: "0 < SNARK_FIELD_SIZE example_lib"
    by (simp add: example_lib_def)
  from genBlankLeaf_deterministic [OF p, of 7]
  obtain leaf where l: "genBlankLeaf example_lib 7 = Inr leaf"
    and f: "StateLeaf.pubKey leaf = \<lparr>rawPubKey = [0, 0]\<rparr>" "voteOptionTreeRoot leaf = 7"
      "voiceCreditBalance leaf = 0" "StateLeaf.nonce leaf = 0"
    and h: "StateLeaf_hash example_lib leaf = hash5 example_lib [0, 0, 7, 0, 0]"
    by blast
  from f have "leaf = new_StateLeaf \<lparr>rawPubKey = [0, 0]\<rparr> 7 0 0"
    by (cases leaf) (simp add: new_StateLeaf_def)
  with l h show ?thesis
    by (simp add: example_lib_def)
qed

section \<open>Command\<close>

text \<open>
  Claim C2 asks \<^verbatim>\<open>equals\<close> to return false for two commands that differ only in
  \<^verbatim>\<open>newPubKey\<close>. Lines 426-427 compare \<^verbatim>\<open>this.newPubKey[0]\<close> with
  \<^verbatim>\<open>command.newPubKey[0]\<close>, two reads of a property that no \<^verbatim>\<open>PubKey\<close> has, so
  both sides are \<^verbatim>\<open>undefined\<close> and the comparison holds. The commands
  \<open>(1, (1, 2), 3, 9, 1, 7)\<close> and \<open>(1, (5, 6), 3, 9, 1, 7)\<close> have different public keys
  and \<^verbatim>\<open>equals\<close> returns true on them.
\<close>

theorem Command_equals_newPubKey_ignored:
  "newPubKey (new_Command 1 \<lparr>rawPubKey = [1, 2]\<rparr> 3 9 1 7) \<noteq>
     newPubKey (new_Command 1 \<lparr>rawPubKey = [5, 6]\<rparr> 3 9 1 7) \<and>
   Command_equals (new_Command 1 \<lparr>rawPubKey = [1, 2]\<rparr> 3 9 1 7)
     (new_Command 1 \<lparr>rawPubKey = [5, 6]\<rparr> 3 9 1 7) = True"
  by (simp add: Command_equals_def PubKey_index_def new_Command_def)

text \<open>
  Claim C1. Let the library's shared key be symmetric and its \<^verbatim>\<open>decrypt\<close> invert its
  \<^verbatim>\<open>encrypt\<close> (sections 4.3 and 4.5 of the specification), and let generated key
  pairs hold the public key derived from their private key. For every command \<open>c\<close>
  whose \<^verbatim>\<open>newPubKey\<close> the constructor accepts, key pairs \<open>A\<close> and \<open>B\<close>, signature
  \<open>s = c.sign(A.privKey)\<close>, shared keys \<open>k1\<close> of \<open>(A.privKey, B.pubKey)\<close> and \<open>k2\<close> of
  \<open>(B.privKey, A.pubKey)\<close>, and message \<open>m = c.encrypt(s, k1)\<close>: \<open>k1 = k2\<close>, and
  \<^verbatim>\<open>Command.decrypt(m, k2)\<close> returns a command and a signature such that
  \<^verbatim>\<open>command.equals(c)\<close> is true (the command is \<open>c\<close> itself, field by field) and the
  signature has the \<^verbatim>\<open>R8\<close> and the \<^verbatim>\<open>S\<close> of \<open>s\<close>.
\<close>

theorem Command_encrypt_decrypt_roundtrip:
  assumes ecdh: "ecdh_symmetric lib"
    and inv: "decrypt_inverts_encrypt lib"
    and rkA: "genKeypair_derived lib rkA" and A: "new_Keypair lib rkA optA = Inr A"
    and rkB: "genKeypair_derived lib rkB" and B: "new_Keypair lib rkB optB = Inr B"
    and c: "new_PubKey lib (rawPubKey (newPubKey c)) = Inr (newPubKey c)"
    and s: "Command_sign lib c (privKey A) = Inr s"
    and k1: "Keypair_genEcdhSharedKey lib (privKey A) (Keypair.pubKey B) = Inr k1"
    and k2: "Keypair_genEcdhSharedKey lib (privKey B) (Keypair.pubKey A) = Inr k2"
    and m: "Command_encrypt lib c s k1 = Inr m"
  shows "k1 = k2 \<and>
         (\<exists>command signature.
            Command_decrypt lib m k2 = Inr (command, signature) \<and>
            Command_equals command c = True \<and> command = c \<and>
            R8 signature = R8 s \<and> S signature = S s)"
proof -
  have "genEcdhSharedKey lib (rawPrivKey (privKey A)) (rawPubKey (Keypair.pubKey B)) =
      genEcdhSharedKey lib (rawPrivKey (privKey B)) (rawPubKey (Keypair.pubKey A))"
    using ecdh new_Keypair_derived [OF A rkA] new_Keypair_derived [OF B rkB]
    unfolding ecdh_symmetric_def by blast
  with k1 k2 have k: "k1 = k2"
    by (simp add: Keypair_genEcdhSharedKey_def)
  let ?pt = "Command_asArray c @ [fst (R8 s), snd (R8 s), S s]"
  have dec: "decrypt lib m k2 = Inr ?pt"
    using inv Command_encrypt_Inr [OF m] k
    unfolding decrypt_inverts_encrypt_def by blast
  from c have len: "length (rawPubKey (newPubKey c)) = 2"
    and x: "rawPubKey (newPubKey c) ! 0 < SNARK_FIELD_SIZE lib"
    and y: "rawPubKey (newPubKey c) ! 1 < SNARK_FIELD_SIZE lib"
    by (simp_all add: new_PubKey_Inr_iff)
  have pk: "\<lparr>rawPubKey = [rawPubKey (newPubKey c) ! 0, rawPubKey (newPubKey c) ! 1]\<rparr> =
      newPubKey c"
    using length_two [OF len] by (cases "newPubKey c") simp
  then have pk': "\<lparr>rawPubKey = [rawPubKey (newPubKey c) ! 0, rawPubKey (newPubKey c) ! Suc 0]\<rparr> =
      newPubKey c"
    by simp
  have res: "Command_decrypt lib m k2 = Inr (c, s)"
    using x y
    by (simp add: Command_decrypt_def dec bind_err_def Command_asArray_def PubKey_asArray_def
        new_PubKey_pair pk' new_Command_def)
  show ?thesis
    using k res by (simp add: Command_equals_iff)
qed

text \<open>
  In the example library: private keys 3 and 5, shared key 15, the command
  \<open>(1, (10, 20), 3, 9, 1, 7)\<close> with hash 51 and signature \<open>((51, 3), 54)\<close>.
\<close>

theorem Command_encrypt_decrypt_roundtrip_witness:
  "Keypair_genEcdhSharedKey example_lib \<lparr>rawPrivKey = 3\<rparr> \<lparr>rawPubKey = [5, 6]\<rparr> = Inr 15 \<and>
   Keypair_genEcdhSharedKey example_lib \<lparr>rawPrivKey = 5\<rparr> \<lparr>rawPubKey = [3, 4]\<rparr> = Inr 15 \<and>
   Command_sign example_lib (new_Command 1 \<lparr>rawPubKey = [10, 20]\<rparr> 3 9 1 7) \<lparr>rawPrivKey = 3\<rparr> =
     Inr \<lparr>R8 = (51, 3), S = 54\<rparr> \<and>
   Command_encrypt example_lib (new_Command 1 \<lparr>rawPubKey = [10, 20]\<rparr> 3 9 1 7)
     \<lparr>R8 = (51, 3), S = 54\<rparr> 15 =
     Inr \<lparr>iv = 15, data = [16, 25, 35, 18, 24, 16, 22, 66, 18, 69]\<rparr> \<and>
   Command_decrypt example_lib \<lparr>iv = 15, data = [16, 25, 35, 18, 24, 16, 22, 66, 18, 69]\<rparr> 15 =
     Inr (new_Command 1 \<lparr>rawPubKey = [10, 20]\<rparr> 3 9 1 7, \<lparr>R8 = (51, 3), S = 54\<rparr>)"
proof -
  let ?A = "\<lparr>privKey = \<lparr>rawPrivKey = 3\<rparr>, pubKey = \<lparr>rawPubKey = [3, 4]\<rparr>\<rparr>"
  let ?B = "\<lparr>privKey = \<lparr>rawPrivKey = 5\<rparr>, pubKey = \<lparr>rawPubKey = [5, 6]\<rparr>\<rparr>"
  let ?c = "new_Command 1 \<lparr>rawPubKey = [10, 20]\<rparr> 3 9 1 7"
  let ?s = "\<lparr>R8 = (51, 3), S = 54\<rparr>"
  let ?m = "\<lparr>iv = 15, data = [16, 25, 35, 18, 24, 16, 22, 66, 18, 69]\<rparr>"
  have rk: "genKeypair_derived example_lib (0, [0, 1])"
    by (simp add: genKeypair_derived_def example_lib_def)
  have A: "new_Keypair example_lib (0, [0, 1]) (Some \<lparr>rawPrivKey = 3\<rparr>) = Inr ?A"
    using example_Keypair [of 3] by (simp add: example_lib_def)
  have B: "new_Keypair example_lib (0, [0, 1]) (Some \<lparr>rawPrivKey = 5\<rparr>) = Inr ?B"
    using example_Keypair [of 5] by (simp add: example_lib_def)
  have c: "new_PubKey example_lib (rawPubKey (newPubKey ?c)) = Inr (newPubKey ?c)"
    by (simp add: new_Command_def new_PubKey_Inr_iff) (simp add: example_lib_def)
  have s: "Command_sign example_lib ?c (privKey ?A) = Inr ?s"
    by (simp add: Command_sign_def Command_hash_def Command_asArray_def PubKey_asArray_def
        new_Command_def bind_err_def example_lib_def)
  have k1: "Keypair_genEcdhSharedKey example_lib (privKey ?A) (Keypair.pubKey ?B) = Inr 15"
    by (simp add: Keypair_genEcdhSharedKey_def example_lib_def)
  have k2: "Keypair_genEcdhSharedKey example_lib (privKey ?B) (Keypair.pubKey ?A) = Inr 15"
    by (simp add: Keypair_genEcdhSharedKey_def example_lib_def)
  have m: "Command_encrypt example_lib ?c ?s 15 = Inr ?m"
    by (simp add: Command_encrypt_def Command_asArray_def PubKey_asArray_def new_Command_def
        new_Message_def assert_def bind_err_def example_lib_def)
  from Command_encrypt_decrypt_roundtrip
    [OF example_lib_ecdh example_lib_decrypt rk A rk B c s k1 k2 m]
  obtain command signature where d: "Command_decrypt example_lib ?m 15 = Inr (command, signature)"
    and e: "command = ?c" "R8 signature = R8 ?s" "S signature = S ?s"
    by blast
  from e have "signature = ?s"
    by (cases signature) simp
  with d e(1) s k1 k2 m show ?thesis
    by simp
qed

end
